theory Spec2Isabelle
  imports Complex_Main
begin

section \<open>AirGuard: the fuzzy classifier of \<^verbatim>\<open>aqi_sensor_app.tsx\<close>\<close>

text \<open>
  The classifier turns a gas reading relative to a baseline, a temperature and a humidity
  into one of six labels. JavaScript numbers are IEEE-754 binary64 values; they are modelled
  as reals, without NaN and the infinities. The difference of raw value and baseline, and
  the sums a caller forms before the call, are rounded to binary64 (\<open>double_sub\<close>,
  \<open>double_add\<close>); the arithmetic inside the membership formulas is exact.
  Labels are the property keys of the source, that is strings.
\<close>

subsection \<open>Binary64 rounding\<close>

text \<open>
  A binary64 value has a significand of 53 bits and an exponent of at least \<open>-1022\<close>. The
  result of \<^verbatim>\<open>+\<close> and \<^verbatim>\<open>-\<close> is the exact result rounded to the nearest such value, ties
  to the even significand. Results beyond the largest binary64 value, where JavaScript
  gives an infinity, are not modelled.
\<close>

text \<open>The exponent \<open>e\<close> with \<open>2 ^ e \<le> x < 2 ^ (e + 1)\<close>, for \<open>1 \<le> x\<close>.\<close>

function binade :: "real \<Rightarrow> nat" where
  "binade x = (if x < 2 then 0 else Suc (binade (x / 2)))"
  by pat_completeness auto
termination
proof (relation "measure (\<lambda>x. nat \<lfloor>x\<rfloor>)")
  show "wf (measure (\<lambda>x::real. nat \<lfloor>x\<rfloor>))" by simp
next
  fix x :: real assume "\<not> x < 2"
  then have "x / 2 \<le> x - 1" by simp
  then have "\<lfloor>x / 2\<rfloor> \<le> \<lfloor>x - 1\<rfloor>" by (rule floor_mono)
  moreover have "2 \<le> \<lfloor>x\<rfloor>" using \<open>\<not> x < 2\<close> by (simp add: le_floor_iff)
  ultimately show "(x / 2, x) \<in> measure (\<lambda>x. nat \<lfloor>x\<rfloor>)" by simp
qed

text \<open>
  For \<open>0 < x < 1\<close>: the number of doublings that bring \<open>x\<close> to at least 1, but no more
  than \<open>n\<close> of them (the exponent of a subnormal value stays at the least exponent).
\<close>

fun binade_below :: "nat \<Rightarrow> real \<Rightarrow> nat" where
  "binade_below 0 x = 0"
| "binade_below (Suc n) x = (if 1 \<le> x then 0 else Suc (binade_below n (2 * x)))"

definition exponent :: "real \<Rightarrow> int" where
  "exponent x = (if 1 \<le> x then int (binade x) else - int (binade_below 1022 x))"

definition pow2 :: "int \<Rightarrow> real" where
  "pow2 k = (if 0 \<le> k then 2 ^ nat k else 1 / 2 ^ nat (- k))"

text \<open>The nearest integer of a non-negative real, the even one of two nearest.\<close>

definition round_half_even :: "real \<Rightarrow> int" where
  "round_half_even x =
     (let n = \<lfloor>x\<rfloor>; r = x - of_int n
      in if r < 1 / 2 then n else if 1 / 2 < r then n + 1 else if even n then n else n + 1)"

definition double_round :: "real \<Rightarrow> real" where
  "double_round x =
     (if x = 0 then 0
      else let q = exponent \<bar>x\<bar> - 52
           in sgn x * of_int (round_half_even (\<bar>x\<bar> / pow2 q)) * pow2 q)"

definition double_add :: "real \<Rightarrow> real \<Rightarrow> real" where
  "double_add x y = double_round (x + y)"

definition double_sub :: "real \<Rightarrow> real \<Rightarrow> real" where
  "double_sub x y = double_round (x - y)"

subsection \<open>\<^verbatim>\<open>Math.max\<close> and \<^verbatim>\<open>Math.min\<close>\<close>

text \<open>
  Both are variadic in JavaScript. Every call of the source passes at least one argument,
  so the first argument is taken apart from the list of the remaining ones.
\<close>

definition Math_max :: "real \<Rightarrow> real list \<Rightarrow> real" where
  "Math_max x xs = foldl max x xs"

definition Math_min :: "real \<Rightarrow> real list \<Rightarrow> real" where
  "Math_min x xs = foldl min x xs"

subsection \<open>Membership functions (the object \<^verbatim>\<open>fuzzyLogic\<close>)\<close>

record aqiScores =
  aqi_excellent :: real
  aqi_good :: real
  aqi_moderate :: real
  aqi_poor :: real
  aqi_hazardous :: real

record tempScores =
  temp_cold :: real
  temp_comfortable :: real
  temp_warm :: real
  temp_hot :: real

record humidityScores =
  hum_dry :: real
  hum_comfortable :: real
  hum_humid :: real
  hum_veryHumid :: real

definition aqiMembership :: "real \<Rightarrow> aqiScores" where
  "aqiMembership deviation =
     (let absDeviation = \<bar>deviation\<bar> in
      \<lparr> aqi_excellent = Math_max 0 [1 - absDeviation / 20],
        aqi_good =
          (if absDeviation < 20 then Math_max 0 [absDeviation / 20]
           else Math_max 0 [1 - (absDeviation - 20) / 30]),
        aqi_moderate =
          (if absDeviation \<ge> 30 \<and> absDeviation < 80 then Math_min 1 [(absDeviation - 30) / 30]
           else Math_max 0 [1 - \<bar>absDeviation - 65\<bar> / 35]),
        aqi_poor =
          (if absDeviation \<ge> 70 \<and> absDeviation < 150 then Math_min 1 [(absDeviation - 70) / 50]
           else Math_max 0 [1 - \<bar>absDeviation - 120\<bar> / 50]),
        aqi_hazardous = Math_min 1 [Math_max 0 [(absDeviation - 130) / 70]] \<rparr>)"

definition tempMembership :: "real \<Rightarrow> tempScores" where
  "tempMembership temp =
     \<lparr> temp_cold = Math_max 0 [1 - (temp - 10) / 10],
       temp_comfortable =
         (if temp \<ge> 18 \<and> temp \<le> 26 then 1
          else if temp < 18 then Math_max 0 [(temp - 10) / 8]
          else Math_max 0 [1 - (temp - 26) / 8]),
       temp_warm =
         (if temp \<ge> 24 \<and> temp \<le> 32 then Math_min 1 [(temp - 24) / 4]
          else Math_max 0 [1 - \<bar>temp - 28\<bar> / 8]),
       temp_hot = Math_min 1 [Math_max 0 [(temp - 30) / 10]] \<rparr>"

definition humidityMembership :: "real \<Rightarrow> humidityScores" where
  "humidityMembership humidity =
     \<lparr> hum_dry = Math_max 0 [1 - humidity / 30],
       hum_comfortable =
         (if humidity \<ge> 30 \<and> humidity \<le> 60 then 1
          else if humidity < 30 then Math_max 0 [humidity / 30]
          else Math_max 0 [1 - (humidity - 60) / 20]),
       hum_humid =
         (if humidity \<ge> 50 \<and> humidity \<le> 80 then Math_min 1 [(humidity - 50) / 15]
          else Math_max 0 [1 - \<bar>humidity - 65\<bar> / 25]),
       hum_veryHumid = Math_min 1 [Math_max 0 [(humidity - 70) / 20]] \<rparr>"

subsection \<open>Rule aggregation (the object \<^verbatim>\<open>conditions\<close>)\<close>

record conditions =
  excellent :: real
  good :: real
  suitable :: real
  moderate :: real
  poor :: real
  hazardous :: real

text \<open>The object literal of \<^verbatim>\<open>getEnvironmentCondition\<close>, as a function of the three score objects.\<close>

definition conditions_literal :: "aqiScores \<Rightarrow> tempScores \<Rightarrow> humidityScores \<Rightarrow> conditions" where
  "conditions_literal aqiScores tempScores humidityScores =
     \<lparr> excellent =
         Math_min (aqi_excellent aqiScores) [temp_comfortable tempScores, hum_comfortable humidityScores],
       good =
         Math_max
           (Math_min (aqi_good aqiScores) [temp_comfortable tempScores])
           [Math_min (aqi_excellent aqiScores) [Math_max (temp_warm tempScores) [hum_humid humidityScores]]],
       suitable =
         Math_max
           (Math_min (aqi_moderate aqiScores) [temp_comfortable tempScores])
           [Math_min (aqi_good aqiScores) [Math_max (temp_warm tempScores) [temp_cold tempScores]]],
       moderate =
         Math_max
           (aqi_moderate aqiScores)
           [Math_min (aqi_good aqiScores) [Math_max (hum_humid humidityScores) [hum_dry humidityScores]],
            Math_min (temp_hot tempScores) [hum_veryHumid humidityScores]],
       poor =
         Math_max
           (aqi_poor aqiScores)
           [Math_min (aqi_moderate aqiScores) [Math_max (temp_hot tempScores) [hum_veryHumid humidityScores]]],
       hazardous =
         Math_max
           (aqi_hazardous aqiScores)
           [Math_min (aqi_poor aqiScores) [temp_hot tempScores, hum_veryHumid humidityScores]] \<rparr>"

text \<open>The value of the local \<^verbatim>\<open>conditions\<close> for the four arguments of the classifier.\<close>

definition conditions_of :: "real \<Rightarrow> real \<Rightarrow> real \<Rightarrow> real \<Rightarrow> conditions" where
  "conditions_of mq135Raw baseline temp humidity =
     (let deviation = double_sub mq135Raw baseline;
          aqiScores = aqiMembership deviation;
          tempScores = tempMembership temp;
          humidityScores = humidityMembership humidity
      in conditions_literal aqiScores tempScores humidityScores)"

subsection \<open>Defuzzification (\<^verbatim>\<open>Object.entries(conditions).reduce\<close>)\<close>

text \<open>
  \<^verbatim>\<open>Object.entries\<close> lists the string keys of an object literal in insertion order.
\<close>

definition Object_entries :: "conditions \<Rightarrow> (string \<times> real) list" where
  "Object_entries c =
     [(''excellent'', excellent c), (''good'', good c), (''suitable'', suitable c),
      (''moderate'', moderate c), (''poor'', poor c), (''hazardous'', hazardous c)]"

record best =
  best_condition :: string
  best_value :: real

text \<open>The callback of \<^verbatim>\<open>reduce\<close>: the accumulator changes only on a strictly greater value.\<close>

definition reduce_step :: "best \<Rightarrow> string \<times> real \<Rightarrow> best" where
  "reduce_step mx kv =
     (case kv of (key, v) \<Rightarrow>
        if v > best_value mx then \<lparr> best_condition = key, best_value = v \<rparr> else mx)"

definition initial_best :: best where
  "initial_best = \<lparr> best_condition = ''moderate'', best_value = 0 \<rparr>"

definition maxCondition :: "conditions \<Rightarrow> best" where
  "maxCondition c = foldl reduce_step initial_best (Object_entries c)"

definition getEnvironmentCondition :: "real \<Rightarrow> real \<Rightarrow> real \<Rightarrow> real \<Rightarrow> string" where
  "getEnvironmentCondition mq135Raw baseline temp humidity =
     best_condition (maxCondition (conditions_of mq135Raw baseline temp humidity))"

subsection \<open>Presentation lookup (\<^verbatim>\<open>getConditionDetails\<close>)\<close>

record presentation =
  label :: string
  color :: string
  textColor :: string
  bgColor :: string
  message :: string

text \<open>The own properties of the object literal \<^verbatim>\<open>details\<close>, in insertion order.\<close>

definition details :: "(string \<times> presentation) list" where
  "details =
     [(''excellent'',
         \<lparr> label = ''Excellent'', color = ''from-green-500 to-emerald-500'',
           textColor = ''text-green-600'', bgColor = ''bg-green-50'',
           message = ''Perfect air quality and climate conditions'' \<rparr>),
      (''good'',
         \<lparr> label = ''Good'', color = ''from-blue-500 to-cyan-500'',
           textColor = ''text-blue-600'', bgColor = ''bg-blue-50'',
           message = ''Air quality is acceptable and conditions are pleasant'' \<rparr>),
      (''suitable'',
         \<lparr> label = ''Suitable'', color = ''from-teal-500 to-green-500'',
           textColor = ''text-teal-600'', bgColor = ''bg-teal-50'',
           message = ''Conditions are acceptable for most activities'' \<rparr>),
      (''moderate'',
         \<lparr> label = ''Moderate'', color = ''from-yellow-500 to-orange-400'',
           textColor = ''text-yellow-700'', bgColor = ''bg-yellow-50'',
           message = ''Acceptable but may affect sensitive individuals'' \<rparr>),
      (''poor'',
         \<lparr> label = ''Poor'', color = ''from-orange-500 to-red-500'',
           textColor = ''text-orange-600'', bgColor = ''bg-orange-50'',
           message = ''Consider limiting outdoor exposure'' \<rparr>),
      (''hazardous'',
         \<lparr> label = ''Hazardous'', color = ''from-red-600 to-red-800'',
           textColor = ''text-red-700'', bgColor = ''bg-red-50'',
           message = ''Health warning! Avoid outdoor activities'' \<rparr>)]"

text \<open>
  An object literal inherits from \<^verbatim>\<open>Object.prototype\<close>, and the read \<^verbatim>\<open>details[condition]\<close>
  follows the prototype chain: a key that is no own property but names a property of
  \<^verbatim>\<open>Object.prototype\<close> yields that inherited value (a function object, or the prototype
  itself for \<^verbatim>\<open>__proto__\<close>), and only a key found nowhere yields \<^verbatim>\<open>undefined\<close>.
  The keys below are the properties of \<^verbatim>\<open>Object.prototype\<close> in ECMAScript, Annex B included.
\<close>

definition Object_prototype_keys :: "string list" where
  "Object_prototype_keys =
     [''constructor'', ''hasOwnProperty'', ''isPrototypeOf'', ''propertyIsEnumerable'',
      ''toLocaleString'', ''toString'', ''valueOf'', ''__proto__'',
      ''__defineGetter__'', ''__defineSetter__'', ''__lookupGetter__'', ''__lookupSetter__'']"

datatype js_value =
  Entry presentation
| Inherited string
| Undefined

definition get_property :: "(string \<times> presentation) list \<Rightarrow> string \<Rightarrow> js_value" where
  "get_property obj key =
     (case map_of obj key of
        Some p \<Rightarrow> Entry p
      | None \<Rightarrow> if key \<in> set Object_prototype_keys then Inherited key else Undefined)"

text \<open>Objects and functions are truthy, \<^verbatim>\<open>undefined\<close> is falsy.\<close>

fun truthy :: "js_value \<Rightarrow> bool" where
  "truthy (Entry p) = True"
| "truthy (Inherited k) = True"
| "truthy Undefined = False"

definition getConditionDetails :: "string \<Rightarrow> js_value" where
  "getConditionDetails condition =
     (let found = get_property details condition
      in if truthy found then found else get_property details ''moderate'')"

subsection \<open>Notions of the specification\<close>

text \<open>Fuzzy AND of k operands is the least of the k values, fuzzy OR the greatest.\<close>

definition fuzzy_AND :: "real list \<Rightarrow> real" where
  "fuzzy_AND xs = Min (set xs)"

definition fuzzy_OR :: "real list \<Rightarrow> real" where
  "fuzzy_OR xs = Max (set xs)"

definition canonical_order :: "string list" where
  "canonical_order = [''excellent'', ''good'', ''suitable'', ''moderate'', ''poor'', ''hazardous'']"

text \<open>
  The label that comes first in a list of entries among those whose value is the greatest
  value of the list.
\<close>

definition first_maximal :: "(string \<times> real) list \<Rightarrow> string option" where
  "first_maximal es = map_option fst (find (\<lambda>kv. snd kv = Max (set (map snd es))) es)"

definition zero_conditions :: conditions where
  "zero_conditions =
     \<lparr> excellent = 0, good = 0, suitable = 0, moderate = 0, poor = 0, hazardous = 0 \<rparr>"

text \<open>
  The branch formulas of the two-branch membership functions, as functions of the quantity
  the source compares with the breakpoints.
\<close>

definition aqi_moderate_ramp :: "real \<Rightarrow> real" where
  "aqi_moderate_ramp absDeviation = Math_min 1 [(absDeviation - 30) / 30]"

definition aqi_moderate_triangle :: "real \<Rightarrow> real" where
  "aqi_moderate_triangle absDeviation = Math_max 0 [1 - \<bar>absDeviation - 65\<bar> / 35]"

definition aqi_poor_ramp :: "real \<Rightarrow> real" where
  "aqi_poor_ramp absDeviation = Math_min 1 [(absDeviation - 70) / 50]"

definition aqi_poor_triangle :: "real \<Rightarrow> real" where
  "aqi_poor_triangle absDeviation = Math_max 0 [1 - \<bar>absDeviation - 120\<bar> / 50]"

definition temp_comfortable_rising :: "real \<Rightarrow> real" where
  "temp_comfortable_rising temp = Math_max 0 [(temp - 10) / 8]"

definition temp_comfortable_falling :: "real \<Rightarrow> real" where
  "temp_comfortable_falling temp = Math_max 0 [1 - (temp - 26) / 8]"

definition hum_comfortable_rising :: "real \<Rightarrow> real" where
  "hum_comfortable_rising humidity = Math_max 0 [humidity / 30]"

definition hum_comfortable_falling :: "real \<Rightarrow> real" where
  "hum_comfortable_falling humidity = Math_max 0 [1 - (humidity - 60) / 20]"

section \<open>Properties\<close>

lemmas math_defs = Math_max_def Math_min_def

lemmas membership_defs = aqiMembership_def tempMembership_def humidityMembership_def

lemmas defuzzify_defs = maxCondition_def Object_entries_def reduce_step_def initial_best_def

subsection \<open>Binary64 rounding\<close>

lemmas double_defs = double_round_def exponent_def pow2_def round_half_even_def Let_def

declare binade.simps [simp del]

lemma binade_lt [simp]: "x < 2 \<Longrightarrow> binade x = 0"
  by (simp add: binade.simps)

lemma binade_ge [simp]: "2 \<le> x \<Longrightarrow> binade x = Suc (binade (x / 2))"
  by (subst binade.simps) simp

lemma double_round_minus: "double_round (- x) = - double_round x"
  by (simp add: double_round_def Let_def)

lemma binade_bounds: "1 \<le> x \<Longrightarrow> 2 ^ binade x \<le> x \<and> x < 2 ^ Suc (binade x)"
proof (induction x rule: binade.induct)
  case (1 x)
  show ?case
  proof (cases "x < 2")
    case True
    with 1(2) show ?thesis by simp
  next
    case False
    then have "1 \<le> x / 2" by simp
    with 1(1) [OF False] have "2 ^ binade (x / 2) \<le> x / 2 \<and> x / 2 < 2 ^ Suc (binade (x / 2))"
      by blast
    with False show ?thesis by simp
  qed
qed

lemma round_half_even_of_int: "round_half_even (of_int m) = m"
  by (simp add: round_half_even_def)

lemma pow2_nonpos: "k \<le> 52 \<Longrightarrow> pow2 (int k - 52) = 1 / 2 ^ (52 - k)"
  by (auto simp: pow2_def nat_diff_distrib')

lemma double_round_of_int:
  assumes "\<bar>n\<bar> < 2 ^ 53"
  shows "double_round (of_int n) = of_int n"
proof (cases "n = 0")
  case True
  then show ?thesis by (simp add: double_round_def)
next
  case False
  define x :: real where "x = of_int \<bar>n\<bar>"
  define k where "k = binade x"
  have x1: "1 \<le> x" using False by (simp add: x_def)
  have "x < 2 ^ 53" using assms unfolding x_def by (metis of_int_less_numeral_power_cancel_iff)
  moreover have "2 ^ k \<le> x" using binade_bounds [OF x1] by (simp add: k_def)
  ultimately have lt: "(2::real) ^ k < 2 ^ 53" by linarith
  have "k < 53"
  proof (rule power_less_imp_less_exp)
    show "(1::real) < 2" by simp
    show "(2::real) ^ k < 2 ^ 53" by (fact lt)
  qed
  then have k: "k \<le> 52" by simp
  have ex: "exponent x = int k" using x1 by (simp add: exponent_def k_def)
  have p: "pow2 (int k - 52) = 1 / 2 ^ (52 - k)" using k by (rule pow2_nonpos)
  have "x / pow2 (int k - 52) = of_int (\<bar>n\<bar> * 2 ^ (52 - k))"
    by (simp add: p x_def)
  then have r: "round_half_even (x / pow2 (int k - 52)) = \<bar>n\<bar> * 2 ^ (52 - k)"
    by (simp only: round_half_even_of_int)
  have ax: "\<bar>of_int n :: real\<bar> = x" by (simp add: x_def)
  have "double_round (of_int n) =
      sgn (of_int n) * of_int (round_half_even (x / pow2 (int k - 52))) * pow2 (int k - 52)"
    unfolding double_round_def Let_def ax ex using False by simp
  also have "\<dots> = sgn (of_int n) * of_int (\<bar>n\<bar> * 2 ^ (52 - k)) * pow2 (int k - 52)"
    by (simp only: r)
  also have "\<dots> = sgn (of_int n) * of_int (\<bar>n\<bar> * 2 ^ (52 - k)) * (1 / 2 ^ (52 - k))"
    by (simp only: p)
  also have "\<dots> = sgn (of_int n :: real) * of_int \<bar>n\<bar>" by simp
  also have "\<dots> = of_int n" by (simp add: sgn_real_def)
  finally show ?thesis .
qed

lemma double_add_of_int:
  "\<bar>m + n\<bar> < 2 ^ 53 \<Longrightarrow> double_add (of_int m) (of_int n) = of_int m + of_int n"
  using double_round_of_int [of "m + n"] by (simp add: double_add_def)

lemma double_sub_of_int:
  "\<bar>m - n\<bar> < 2 ^ 53 \<Longrightarrow> double_sub (of_int m) (of_int n) = of_int m - of_int n"
  using double_round_of_int [of "m - n"] by (simp add: double_sub_def)

lemma double_sub_self [simp]: "double_sub x x = 0"
  by (simp add: double_sub_def double_round_def)

lemma double_sub_values [simp]:
  "double_sub 306 200 = 106" "double_sub 10 0 = 10"
  "double_sub 225 200 = 25" "double_sub 175 200 = - 25"
  by (simp_all add: double_sub_def double_defs)

subsection \<open>Rule aggregation\<close>

text \<open>
  C1. The rule aggregation computes the six activation strengths by the fixed rule set,
  where the fuzzy AND of k operands is the least and the fuzzy OR the greatest of the k
  values: excellent = AND(aqi.excellent, temp.comfortable, hum.comfortable), and so on for
  good, suitable, moderate, poor and hazardous, for every triple of membership vectors.
\<close>

theorem rule_aggregation_exact:
  "conditions_literal a t h =
     \<lparr> excellent = fuzzy_AND [aqi_excellent a, temp_comfortable t, hum_comfortable h],
       good =
         fuzzy_OR [fuzzy_AND [aqi_good a, temp_comfortable t],
                   fuzzy_AND [aqi_excellent a, fuzzy_OR [temp_warm t, hum_humid h]]],
       suitable =
         fuzzy_OR [fuzzy_AND [aqi_moderate a, temp_comfortable t],
                   fuzzy_AND [aqi_good a, fuzzy_OR [temp_warm t, temp_cold t]]],
       moderate =
         fuzzy_OR [aqi_moderate a,
                   fuzzy_AND [aqi_good a, fuzzy_OR [hum_humid h, hum_dry h]],
                   fuzzy_AND [temp_hot t, hum_veryHumid h]],
       poor =
         fuzzy_OR [aqi_poor a,
                   fuzzy_AND [aqi_moderate a, fuzzy_OR [temp_hot t, hum_veryHumid h]]],
       hazardous =
         fuzzy_OR [aqi_hazardous a,
                   fuzzy_AND [aqi_poor a, temp_hot t, hum_veryHumid h]] \<rparr>"
  by (simp add: conditions_literal_def math_defs fuzzy_AND_def fuzzy_OR_def min.assoc max.assoc)

subsection \<open>Scenarios\<close>

text \<open>
  C5. For rawGasValue = 306, baselineValue = 200, temperature = 26.70 and humidity = 52.00
  the activation vector is excellent 0, good 0, suitable 0, moderate 0, poor 0.72,
  hazardous 0, and the condition returned is poor.
\<close>

theorem scenario_B:
  "conditions_of 306 200 26.70 52.00 =
     \<lparr> excellent = 0, good = 0, suitable = 0, moderate = 0, poor = 0.72, hazardous = 0 \<rparr>
   \<and> getEnvironmentCondition 306 200 26.70 52.00 = ''poor''"
proof -
  have c: "conditions_of 306 200 26.70 52.00 =
     \<lparr> excellent = 0, good = 0, suitable = 0, moderate = 0, poor = 0.72, hazardous = 0 \<rparr>"
    by (simp add: conditions_of_def conditions_literal_def membership_defs math_defs Let_def)
  have "getEnvironmentCondition 306 200 26.70 52.00 = ''poor''"
    unfolding getEnvironmentCondition_def c by (simp add: defuzzify_defs)
  with c show ?thesis by (rule conjI)
qed

text \<open>
  C6. For deviation 0 (the raw value equal to the baseline), temperature = 22.0 and
  humidity = 45.0 the activation vector is excellent 1, good 0.25 and 0 for the four other
  labels, and the condition returned is excellent, for every baseline.
\<close>

theorem scenario_A:
  "conditions_of b b 22.0 45.0 =
     \<lparr> excellent = 1.0, good = 0.25, suitable = 0, moderate = 0, poor = 0, hazardous = 0 \<rparr>
   \<and> getEnvironmentCondition b b 22.0 45.0 = ''excellent''"
proof -
  have c: "conditions_of b b 22.0 45.0 =
     \<lparr> excellent = 1.0, good = 0.25, suitable = 0, moderate = 0, poor = 0, hazardous = 0 \<rparr>"
    by (simp add: conditions_of_def conditions_literal_def membership_defs math_defs Let_def)
  have "getEnvironmentCondition b b 22.0 45.0 = ''excellent''"
    unfolding getEnvironmentCondition_def c by (simp add: defuzzify_defs)
  with c show ?thesis by (rule conjI)
qed

subsection \<open>Dependence on the deviation only\<close>

lemma aqiMembership_minus: "aqiMembership (- x) = aqiMembership x"
  by (simp add: aqiMembership_def)

lemma conditions_of_deviation:
  "conditions_of r b t h =
     conditions_literal (aqiMembership (double_sub r b)) (tempMembership t) (humidityMembership h)"
  by (simp add: conditions_of_def)

lemma double_sub_exact_shift:
  assumes "double_add r c = r + c" and "double_add b c = b + c"
  shows "double_sub (double_add r c) (double_add b c) = double_sub r b"
  unfolding assms by (simp add: double_sub_def)

lemma double_sub_exact_mirror:
  assumes "double_add b d = b + d" and "double_sub b d = b - d"
  shows "double_sub (double_add b d) b = - double_sub (double_sub b d) b"
  unfolding assms by (simp add: double_sub_def double_round_minus [symmetric])

text \<open>
  Sums and differences of integers of magnitude below \<open>2 ^ 53\<close> are computed without
  rounding, so for integer readings and an integer shift the shifted call has the same
  computed difference.
\<close>

lemma integer_shift_same_deviation:
  assumes "\<bar>r + c\<bar> < 2 ^ 53" and "\<bar>b + c\<bar> < 2 ^ 53"
  shows "double_sub (double_add (of_int r) (of_int c)) (double_add (of_int b) (of_int c)) =
    double_sub (of_int r) (of_int b)"
  using assms by (intro double_sub_exact_shift double_add_of_int)




text \<open>
  C10. The membership vector of the deviation is computed from its absolute value, so two
  calls whose computed deviations are opposite return the same condition. Hence a raw
  value d above the baseline b and a raw value d below it give the same condition, for
  every b and d for which b + d and b - d are computed without rounding.
\<close>

theorem sign_symmetry_exact_sums:
  "aqiMembership (- x) = aqiMembership x
   \<and> (double_sub r b = - double_sub r' b' \<longrightarrow>
      conditions_of r b t h = conditions_of r' b' t h
      \<and> getEnvironmentCondition r b t h = getEnvironmentCondition r' b' t h)
   \<and> (double_add b d = b + d \<and> double_sub b d = b - d \<longrightarrow>
      getEnvironmentCondition (double_add b d) b t h = getEnvironmentCondition (double_sub b d) b t h)"
proof (intro conjI impI)
  show "aqiMembership (- x) = aqiMembership x" by (rule aqiMembership_minus)
next
  assume "double_sub r b = - double_sub r' b'"
  then show c: "conditions_of r b t h = conditions_of r' b' t h"
    by (simp add: conditions_of_deviation aqiMembership_minus)
  then show "getEnvironmentCondition r b t h = getEnvironmentCondition r' b' t h"
    by (simp add: getEnvironmentCondition_def)
next
  assume "double_add b d = b + d \<and> double_sub b d = b - d"
  then have "double_sub (double_add b d) b = - double_sub (double_sub b d) b"
    using double_sub_exact_mirror by blast
  then have "conditions_of (double_add b d) b t h = conditions_of (double_sub b d) b t h"
    by (simp add: conditions_of_deviation aqiMembership_minus)
  then show "getEnvironmentCondition (double_add b d) b t h =
      getEnvironmentCondition (double_sub b d) b t h"
    by (simp add: getEnvironmentCondition_def)
qed

theorem sign_symmetry_exact_sums_witness:
  "double_add 200 106 = 200 + 106 \<and> double_sub 200 106 = 200 - 106
   \<and> double_sub 306 200 = - double_sub 94 200
   \<and> getEnvironmentCondition (double_add 200 106) 200 26.7 52 =
       getEnvironmentCondition (double_sub 200 106) 200 26.7 52
   \<and> getEnvironmentCondition 306 200 26.7 52 = getEnvironmentCondition 94 200 26.7 52"
proof -
  have sums: "double_add 200 106 = 200 + 106 \<and> double_sub 200 106 = 200 - 106"
    by (simp add: double_add_def double_sub_def double_defs)
  have opp: "double_sub 306 200 = - double_sub 94 200"
    by (simp add: double_sub_def double_defs)
  from sign_symmetry_exact_sums [where b = 200 and d = 106 and t = "26.7" and h = 52] sums
  have "getEnvironmentCondition (double_add 200 106) 200 26.7 52 =
       getEnvironmentCondition (double_sub 200 106) 200 26.7 52"
    by blast
  moreover from sign_symmetry_exact_sums [where r = 306 and b = 200 and r' = 94 and b' = 200 and t = "26.7" and h = 52] opp
  have "getEnvironmentCondition 306 200 26.7 52 = getEnvironmentCondition 94 200 26.7 52"
    by blast
  ultimately show ?thesis using sums opp by blast
qed

text \<open>
  With the baseline \<^verbatim>\<open>199.9\<close> and d = 80 the sum is rounded to a value whose difference
  from the baseline is just below 80, and the difference b - d to one whose difference
  from the baseline is -80: at 27 degrees Celsius and 45 percent humidity the call above
  the baseline returns moderate and the call below it suitable.
\<close>

theorem sign_symmetry_counterexample:
  "double_sub (double_add (double_round 199.9) 80) (double_round 199.9) = 80 - 1 / 2 ^ 45
   \<and> double_sub (double_sub (double_round 199.9) 80) (double_round 199.9) = - 80
   \<and> getEnvironmentCondition (double_add (double_round 199.9) 80) (double_round 199.9) 27 45 =
       ''moderate''
   \<and> getEnvironmentCondition (double_sub (double_round 199.9) 80) (double_round 199.9) 27 45 =
       ''suitable''"
proof -
  have b: "double_round 199.9 = 7033355980557517 / 2 ^ 45"
    by (simp add: double_defs)
  have up: "double_add (7033355980557517 / 2 ^ 45) 80 = 2462026436916019 / 2 ^ 43"
    by (simp add: double_add_def double_defs)
  have down: "double_sub (7033355980557517 / 2 ^ 45) 80 = 4218606213450957 / 2 ^ 45"
    by (simp add: double_sub_def double_defs)
  have d1: "double_sub (2462026436916019 / 2 ^ 43) (7033355980557517 / 2 ^ 45) = 80 - 1 / 2 ^ 45"
    by (simp add: double_sub_def double_defs)
  have d2: "double_sub (4218606213450957 / 2 ^ 45) (7033355980557517 / 2 ^ 45) = - 80"
    by (simp add: double_sub_def double_defs)
  have above: "conditions_of (2462026436916019 / 2 ^ 43) (7033355980557517 / 2 ^ 45) 27 45 =
      \<lparr> excellent = 0, good = 0, suitable = 7 / 8, moderate = 1,
        poor = 1 / 5 - 1 / (50 * 2 ^ 45), hazardous = 0 \<rparr>"
    unfolding conditions_of_deviation d1
    by (simp add: conditions_literal_def membership_defs math_defs Let_def)
  have below: "conditions_of (4218606213450957 / 2 ^ 45) (7033355980557517 / 2 ^ 45) 27 45 =
      \<lparr> excellent = 0, good = 0, suitable = 4 / 7, moderate = 4 / 7, poor = 1 / 5, hazardous = 0 \<rparr>"
    unfolding conditions_of_deviation d2
    by (simp add: conditions_literal_def membership_defs math_defs Let_def)
  have "getEnvironmentCondition (2462026436916019 / 2 ^ 43) (7033355980557517 / 2 ^ 45) 27 45 =
      ''moderate''"
    unfolding getEnvironmentCondition_def above by (simp add: defuzzify_defs)
  moreover have "getEnvironmentCondition (4218606213450957 / 2 ^ 45) (7033355980557517 / 2 ^ 45) 27 45 =
      ''suitable''"
    unfolding getEnvironmentCondition_def below by (simp add: defuzzify_defs)
  ultimately show ?thesis unfolding b up down using d1 d2 by blast
qed

subsection \<open>Range of the degrees\<close>

text \<open>
  Every degree of the deviation vector lies in the unit interval. In the temperature and
  humidity vectors every degree is at least 0, and every degree but \<open>cold\<close> and \<open>dry\<close> is
  at most 1: those two have the lower clamp \<^verbatim>\<open>Math.max(0, ...)\<close> only, where the mirrored
  \<open>hot\<close> and \<open>veryHumid\<close> have \<^verbatim>\<open>Math.min(1, Math.max(0, ...))\<close>.
\<close>

lemma aqiMembership_range:
  "0 \<le> aqi_excellent (aqiMembership d) \<and> aqi_excellent (aqiMembership d) \<le> 1
   \<and> 0 \<le> aqi_good (aqiMembership d) \<and> aqi_good (aqiMembership d) \<le> 1
   \<and> 0 \<le> aqi_moderate (aqiMembership d) \<and> aqi_moderate (aqiMembership d) \<le> 1
   \<and> 0 \<le> aqi_poor (aqiMembership d) \<and> aqi_poor (aqiMembership d) \<le> 1
   \<and> 0 \<le> aqi_hazardous (aqiMembership d) \<and> aqi_hazardous (aqiMembership d) \<le> 1"
  by (simp add: aqiMembership_def math_defs Let_def)

lemma tempMembership_range:
  "0 \<le> temp_cold (tempMembership t)
   \<and> 0 \<le> temp_comfortable (tempMembership t) \<and> temp_comfortable (tempMembership t) \<le> 1
   \<and> 0 \<le> temp_warm (tempMembership t) \<and> temp_warm (tempMembership t) \<le> 1
   \<and> 0 \<le> temp_hot (tempMembership t) \<and> temp_hot (tempMembership t) \<le> 1"
  by (simp add: tempMembership_def math_defs)

lemma temp_cold_le_1_iff: "temp_cold (tempMembership t) \<le> 1 \<longleftrightarrow> 10 \<le> t"
  by (simp add: tempMembership_def math_defs)

lemma humidityMembership_range:
  "0 \<le> hum_dry (humidityMembership h)
   \<and> 0 \<le> hum_comfortable (humidityMembership h) \<and> hum_comfortable (humidityMembership h) \<le> 1
   \<and> 0 \<le> hum_humid (humidityMembership h) \<and> hum_humid (humidityMembership h) \<le> 1
   \<and> 0 \<le> hum_veryHumid (humidityMembership h) \<and> hum_veryHumid (humidityMembership h) \<le> 1"
  by (simp add: humidityMembership_def math_defs)

lemma hum_dry_le_1_iff: "hum_dry (humidityMembership h) \<le> 1 \<longleftrightarrow> 0 \<le> h"
  by (simp add: humidityMembership_def math_defs)

lemma conditions_literal_range:
  assumes a: "0 \<le> aqi_excellent a" "aqi_excellent a \<le> 1" "0 \<le> aqi_good a" "aqi_good a \<le> 1"
      "0 \<le> aqi_moderate a" "aqi_moderate a \<le> 1" "0 \<le> aqi_poor a" "aqi_poor a \<le> 1"
      "0 \<le> aqi_hazardous a" "aqi_hazardous a \<le> 1"
    and t: "0 \<le> temp_cold t" "0 \<le> temp_comfortable t" "0 \<le> temp_warm t" "0 \<le> temp_hot t"
      "temp_hot t \<le> 1"
    and h: "0 \<le> hum_dry h" "0 \<le> hum_comfortable h" "0 \<le> hum_humid h" "0 \<le> hum_veryHumid h"
  shows "0 \<le> excellent (conditions_literal a t h) \<and> excellent (conditions_literal a t h) \<le> 1
   \<and> 0 \<le> good (conditions_literal a t h) \<and> good (conditions_literal a t h) \<le> 1
   \<and> 0 \<le> suitable (conditions_literal a t h) \<and> suitable (conditions_literal a t h) \<le> 1
   \<and> 0 \<le> moderate (conditions_literal a t h) \<and> moderate (conditions_literal a t h) \<le> 1
   \<and> 0 \<le> poor (conditions_literal a t h) \<and> poor (conditions_literal a t h) \<le> 1
   \<and> 0 \<le> hazardous (conditions_literal a t h) \<and> hazardous (conditions_literal a t h) \<le> 1"
  using a t h
  by (simp add: conditions_literal_def math_defs le_max_iff_disj min_le_iff_disj)

lemma conditions_of_range:
  "0 \<le> excellent (conditions_of r b t h) \<and> excellent (conditions_of r b t h) \<le> 1
   \<and> 0 \<le> good (conditions_of r b t h) \<and> good (conditions_of r b t h) \<le> 1
   \<and> 0 \<le> suitable (conditions_of r b t h) \<and> suitable (conditions_of r b t h) \<le> 1
   \<and> 0 \<le> moderate (conditions_of r b t h) \<and> moderate (conditions_of r b t h) \<le> 1
   \<and> 0 \<le> poor (conditions_of r b t h) \<and> poor (conditions_of r b t h) \<le> 1
   \<and> 0 \<le> hazardous (conditions_of r b t h) \<and> hazardous (conditions_of r b t h) \<le> 1"
  unfolding conditions_of_def Let_def
  using aqiMembership_range [of "double_sub r b"] tempMembership_range [of t] humidityMembership_range [of h]
  by (intro conditions_literal_range) simp_all

text \<open>
  C2. Every degree produced by the three membership functions and every activation
  strength lies in the closed interval from 0 to 1. The activation strengths do
  (\<open>conditions_of_range\<close>), and so do all degrees but two; the degree \<open>cold\<close> does not: at a
  temperature of 0 degrees Celsius it is 2.
\<close>

theorem cold_degree_exceeds_one:
  "temp_cold (tempMembership 0) = 2 \<and> \<not> temp_cold (tempMembership 0) \<le> 1"
  by (simp add: tempMembership_def math_defs)

lemma dry_degree_exceeds_one: "hum_dry (humidityMembership (- 30)) = 2"
  by (simp add: humidityMembership_def math_defs)

subsection \<open>Defuzzification\<close>

text \<open>
  The fold of \<open>reduce_step\<close> over a list of entries: when no value exceeds the value of the
  starting accumulator, the accumulator is returned; otherwise the result carries the
  greatest value of the list and the first label that has it.
\<close>

lemma reduce_step_value: "best_value (reduce_step b (k, v)) = max (best_value b) v"
  by (simp add: reduce_step_def)

lemma foldl_reduce_none:
  "\<forall>kv\<in>set es. snd kv \<le> best_value b \<Longrightarrow> foldl reduce_step b es = b"
  by (induction es arbitrary: b) (auto simp: reduce_step_def)

lemma first_maximal_head:
  assumes "\<forall>kv\<in>set es. snd kv \<le> v"
  shows "first_maximal ((k, v) # es) = Some k"
proof -
  have "Max (set (map snd ((k, v) # es))) = v"
    using assms by (auto intro!: Max_eqI)
  then show ?thesis by (simp add: first_maximal_def)
qed

lemma Max_tail:
  assumes "kv \<in> set es" and "v < snd kv"
  shows "Max (set (map snd ((k, v) # es))) = Max (set (map snd es))"
    and "v < Max (set (map snd es))"
proof -
  have ne: "set (map snd es) \<noteq> {}" using assms(1) by auto
  have "snd kv \<le> Max (set (map snd es))" using assms(1) by simp
  then show lt: "v < Max (set (map snd es))" using assms(2) by simp
  have "Max (set (map snd ((k, v) # es))) = max v (Max (set (map snd es)))"
    using ne by simp
  then show "Max (set (map snd ((k, v) # es))) = Max (set (map snd es))"
    using lt by simp
qed

lemma first_maximal_tail:
  assumes "kv \<in> set es" and "v < snd kv"
  shows "first_maximal ((k, v) # es) = first_maximal es"
  unfolding first_maximal_def Max_tail(1) [OF assms] using Max_tail(2) [OF assms] by simp

lemma foldl_reduce_some:
  "\<exists>kv\<in>set es. best_value b < snd kv \<Longrightarrow>
     first_maximal es = Some (best_condition (foldl reduce_step b es)) \<and>
     best_value (foldl reduce_step b es) = Max (set (map snd es))"
proof (induction es arbitrary: b)
  case Nil
  then show ?case by simp
next
  case (Cons e es)
  obtain k v where e: "e = (k, v)" by (cases e)
  let ?b' = "reduce_step b (k, v)"
  show ?case
  proof (cases "\<exists>kv\<in>set es. best_value ?b' < snd kv")
    case True
    then obtain kv where kv: "kv \<in> set es" "best_value ?b' < snd kv" by blast
    then have lt: "v < snd kv" by (simp add: reduce_step_value)
    from Cons.IH [OF True] show ?thesis
      unfolding e first_maximal_tail [OF kv(1) lt] Max_tail(1) [OF kv(1) lt] by simp
  next
    case False
    then have le: "\<forall>kv\<in>set es. snd kv \<le> best_value ?b'" by auto
    then have stay: "foldl reduce_step ?b' es = ?b'" by (rule foldl_reduce_none)
    have gt: "best_value b < v"
    proof (rule ccontr)
      assume "\<not> best_value b < v"
      then have "?b' = b" "v \<le> best_value b" by (simp_all add: reduce_step_def)
      with le Cons.prems e show False by auto
    qed
    then have b': "?b' = \<lparr>best_condition = k, best_value = v\<rparr>" by (simp add: reduce_step_def)
    have all: "\<forall>kv\<in>set es. snd kv \<le> v" using le b' by simp
    have mx: "Max (set (map snd (e # es))) = v"
      unfolding e using all by (auto intro!: Max_eqI)
    have fm: "first_maximal (e # es) = Some k"
      unfolding e using all by (rule first_maximal_head)
    have res: "foldl reduce_step b (e # es) = \<lparr>best_condition = k, best_value = v\<rparr>"
      using stay b' by (simp add: e)
    show ?thesis unfolding res fm mx by simp
  qed
qed

text \<open>
  C3. The defuzzifier scans the six activations in the order excellent, good, suitable,
  moderate, poor, hazardous, from the running best (moderate, 0), and replaces the running
  best only on a strictly greater value. Consequently, when some activation is strictly
  greater than 0, the label returned is the earliest in that order among the labels that
  have the greatest value, ties included; when no activation is greater than 0, the
  running best is never replaced.
\<close>

theorem defuzzifier_first_maximal:
  "map fst (Object_entries c) = canonical_order
   \<and> reduce_step b (k, v) = (if best_value b < v then \<lparr>best_condition = k, best_value = v\<rparr> else b)
   \<and> ((\<exists>kv\<in>set (Object_entries c). 0 < snd kv) \<longrightarrow>
        first_maximal (Object_entries c) = Some (best_condition (maxCondition c))
        \<and> best_value (maxCondition c) = Max (set (map snd (Object_entries c))))
   \<and> ((\<forall>kv\<in>set (Object_entries c). snd kv \<le> 0) \<longrightarrow> maxCondition c = initial_best)"
proof (intro conjI impI)
  show "map fst (Object_entries c) = canonical_order"
    by (simp add: Object_entries_def canonical_order_def)
  show "reduce_step b (k, v) = (if best_value b < v then \<lparr>best_condition = k, best_value = v\<rparr> else b)"
    by (simp add: reduce_step_def)
next
  assume "\<exists>kv\<in>set (Object_entries c). 0 < snd kv"
  then have ex: "\<exists>kv\<in>set (Object_entries c). best_value initial_best < snd kv"
    by (simp add: initial_best_def)
  from foldl_reduce_some [OF ex]
  show "first_maximal (Object_entries c) = Some (best_condition (maxCondition c))"
    and "best_value (maxCondition c) = Max (set (map snd (Object_entries c)))"
    unfolding maxCondition_def by blast+
next
  assume "\<forall>kv\<in>set (Object_entries c). snd kv \<le> 0"
  then have "\<forall>kv\<in>set (Object_entries c). snd kv \<le> best_value initial_best"
    by (simp add: initial_best_def)
  then show "maxCondition c = initial_best"
    unfolding maxCondition_def by (rule foldl_reduce_none)
qed

lemma tie_conditions:
  "conditions_of 10 0 22 45 =
     \<lparr> excellent = 1 / 2, good = 1 / 2, suitable = 1 / 4, moderate = 1 / 5, poor = 0, hazardous = 0 \<rparr>"
  by (simp add: conditions_of_def conditions_literal_def membership_defs math_defs Let_def)

theorem defuzzifier_first_maximal_witness:
  "excellent (conditions_of 10 0 22 45) = good (conditions_of 10 0 22 45)
   \<and> first_maximal (Object_entries (conditions_of 10 0 22 45)) = Some ''excellent''
   \<and> getEnvironmentCondition 10 0 22 45 = ''excellent''
   \<and> best_value (maxCondition (conditions_of 10 0 22 45)) = 1 / 2
   \<and> maxCondition zero_conditions = initial_best"
proof -
  let ?c = "conditions_of 10 0 22 45"
  have pos: "\<exists>kv\<in>set (Object_entries ?c). 0 < snd kv"
    by (simp add: tie_conditions Object_entries_def)
  have fm: "first_maximal (Object_entries ?c) = Some ''excellent''"
    by (simp add: tie_conditions Object_entries_def first_maximal_def)
  have zero: "\<forall>kv\<in>set (Object_entries zero_conditions). snd kv \<le> 0"
    by (simp add: zero_conditions_def Object_entries_def)
  have mx: "Max (set (map snd (Object_entries ?c))) = 1 / 2"
    by (simp add: tie_conditions Object_entries_def)
  from defuzzifier_first_maximal [of ?c] pos
  have "first_maximal (Object_entries ?c) = Some (best_condition (maxCondition ?c))"
    and "best_value (maxCondition ?c) = Max (set (map snd (Object_entries ?c)))"
    by blast+
  moreover from defuzzifier_first_maximal [of zero_conditions] zero
  have "maxCondition zero_conditions = initial_best" by blast
  ultimately show ?thesis
    using fm mx by (simp add: getEnvironmentCondition_def tie_conditions)
qed

text \<open>
  With all six activations equal to 0 the six labels share the greatest value and the
  earliest of them is excellent, yet the label returned is moderate. Raw value 225,
  baseline 200, 40 degrees Celsius and 35 percent humidity is such an input.
\<close>

theorem all_zero_tie_counterexample:
  "conditions_of 225 200 40 35 = zero_conditions
   \<and> first_maximal (Object_entries (conditions_of 225 200 40 35)) = Some ''excellent''
   \<and> getEnvironmentCondition 225 200 40 35 = ''moderate''
   \<and> getEnvironmentCondition 225 200 40 35 \<noteq> ''excellent''"
proof -
  have z: "conditions_of 225 200 40 35 = zero_conditions"
    by (simp add: conditions_of_def conditions_literal_def membership_defs math_defs Let_def
        zero_conditions_def)
  show ?thesis unfolding getEnvironmentCondition_def z
    by (simp add: zero_conditions_def first_maximal_def defuzzify_defs)
qed

text \<open>
  C4. For every input whose six activation strengths are all 0, the classifier returns the
  label moderate.
\<close>

theorem all_zero_defaults_to_moderate:
  "conditions_of mq135Raw baseline temp humidity = zero_conditions \<Longrightarrow>
     getEnvironmentCondition mq135Raw baseline temp humidity = ''moderate''"
  by (simp add: getEnvironmentCondition_def zero_conditions_def defuzzify_defs)

theorem all_zero_defaults_to_moderate_witness:
  "conditions_of 175 200 36 50 = zero_conditions
   \<and> getEnvironmentCondition 175 200 36 50 = ''moderate''"
proof -
  have z: "conditions_of 175 200 36 50 = zero_conditions"
    by (simp add: conditions_of_def conditions_literal_def membership_defs math_defs Let_def
        zero_conditions_def)
  from z all_zero_defaults_to_moderate [OF z] show ?thesis by (rule conjI)
qed

subsection \<open>Breakpoints of the two-branch membership functions\<close>

lemma aqi_branches:
  "aqi_moderate (aqiMembership d) =
     (if \<bar>d\<bar> \<ge> 30 \<and> \<bar>d\<bar> < 80 then aqi_moderate_ramp \<bar>d\<bar> else aqi_moderate_triangle \<bar>d\<bar>)"
  "aqi_poor (aqiMembership d) =
     (if \<bar>d\<bar> \<ge> 70 \<and> \<bar>d\<bar> < 150 then aqi_poor_ramp \<bar>d\<bar> else aqi_poor_triangle \<bar>d\<bar>)"
  by (simp_all add: aqiMembership_def Let_def aqi_moderate_ramp_def aqi_moderate_triangle_def
      aqi_poor_ramp_def aqi_poor_triangle_def)

lemma comfortable_branches:
  "temp_comfortable (tempMembership t) =
     (if t \<ge> 18 \<and> t \<le> 26 then 1
      else if t < 18 then temp_comfortable_rising t else temp_comfortable_falling t)"
  "hum_comfortable (humidityMembership h) =
     (if h \<ge> 30 \<and> h \<le> 60 then 1
      else if h < 30 then hum_comfortable_rising h else hum_comfortable_falling h)"
  by (simp_all add: tempMembership_def humidityMembership_def temp_comfortable_rising_def
      temp_comfortable_falling_def hum_comfortable_rising_def hum_comfortable_falling_def)

lemma temp_comfortable_closed:
  "temp_comfortable (tempMembership t) = max 0 (min 1 (min ((t - 10) / 8) (1 - (t - 26) / 8)))"
proof -
  consider "t < 18" | "18 \<le> t" "t \<le> 26" | "26 < t" by linarith
  then show ?thesis
  proof cases
    case 1
    then have "(t - 10) / 8 < 1" and "(t - 10) / 8 < 1 - (t - 26) / 8"
      by (simp_all add: field_simps)
    with 1 show ?thesis by (simp add: tempMembership_def math_defs)
  next
    case 2
    then have "1 \<le> (t - 10) / 8" "1 \<le> 1 - (t - 26) / 8" by simp_all
    with 2 show ?thesis by (simp add: tempMembership_def math_defs)
  next
    case 3
    then have "1 - (t - 26) / 8 < 1" and "1 - (t - 26) / 8 < (t - 10) / 8"
      by (simp_all add: field_simps)
    with 3 show ?thesis by (simp add: tempMembership_def math_defs)
  qed
qed

lemma hum_comfortable_closed:
  "hum_comfortable (humidityMembership h) = max 0 (min 1 (min (h / 30) (1 - (h - 60) / 20)))"
proof -
  consider "h < 30" | "30 \<le> h" "h \<le> 60" | "60 < h" by linarith
  then show ?thesis
  proof cases
    case 1
    then have "h / 30 < 1" and "h / 30 < 1 - (h - 60) / 20"
      by (simp_all add: field_simps)
    with 1 show ?thesis by (simp add: humidityMembership_def math_defs)
  next
    case 2
    then have "1 \<le> h / 30" "1 \<le> 1 - (h - 60) / 20" by simp_all
    with 2 show ?thesis by (simp add: humidityMembership_def math_defs)
  next
    case 3
    then have "1 - (h - 60) / 20 < 1" and "1 - (h - 60) / 20 < h / 30"
      by (simp_all add: field_simps)
    with 3 show ?thesis by (simp add: humidityMembership_def math_defs)
  qed
qed

lemma isCont_temp_comfortable: "isCont (\<lambda>t. temp_comfortable (tempMembership t)) x"
  unfolding temp_comfortable_closed by (intro continuous_intros) simp_all

lemma isCont_hum_comfortable: "isCont (\<lambda>h. hum_comfortable (humidityMembership h)) x"
  unfolding hum_comfortable_closed by (intro continuous_intros) simp_all

lemma aqi_moderate_below_80:
  "\<bar>d\<bar> < 80 \<Longrightarrow> aqi_moderate (aqiMembership d) = max 0 (min 1 ((\<bar>d\<bar> - 30) / 30))"
  by (simp add: aqiMembership_def math_defs Let_def)

lemma aqi_poor_below_150:
  "\<bar>d\<bar> < 150 \<Longrightarrow> aqi_poor (aqiMembership d) = max 0 (min 1 ((\<bar>d\<bar> - 70) / 50))"
  by (simp add: aqiMembership_def math_defs Let_def)

lemma isCont_agree_near:
  fixes f g :: "real \<Rightarrow> real"
  assumes "\<bar>x\<bar> < r" and agree: "\<And>d. \<bar>d\<bar> < r \<Longrightarrow> f d = g d" and g: "isCont g x"
  shows "isCont f x"
proof -
  have "open {d::real. \<bar>d\<bar> < r}"
    by (intro open_Collect_less continuous_intros)
  then have "eventually (\<lambda>d. d \<in> {d::real. \<bar>d\<bar> < r}) (nhds x)"
    using assms(1) by (intro eventually_nhds_in_open) simp_all
  then have "eventually (\<lambda>d. f d = g d) (nhds x)"
    by (rule eventually_mono) (simp add: agree)
  then show ?thesis using isCont_cong g by blast
qed

lemma isCont_aqi_moderate:
  assumes "\<bar>x\<bar> < 80"
  shows "isCont (\<lambda>d. aqi_moderate (aqiMembership d)) x"
proof (rule isCont_agree_near [OF assms])
  show "isCont (\<lambda>d::real. max 0 (min 1 ((\<bar>d\<bar> - 30) / 30))) x"
    by (intro continuous_intros) simp_all
qed (rule aqi_moderate_below_80)

lemma isCont_aqi_poor:
  assumes "\<bar>x\<bar> < 150"
  shows "isCont (\<lambda>d. aqi_poor (aqiMembership d)) x"
proof (rule isCont_agree_near [OF assms])
  show "isCont (\<lambda>d::real. max 0 (min 1 ((\<bar>d\<bar> - 70) / 50))) x"
    by (intro continuous_intros) simp_all
qed (rule aqi_poor_below_150)

lemma jump_not_isCont:
  fixes f :: "real \<Rightarrow> real"
  assumes left: "\<And>y. a - 1 \<le> y \<Longrightarrow> y < a \<Longrightarrow> f y = l" and "f a \<noteq> l"
  shows "\<not> isCont f a"
proof
  assume "isCont f a"
  then have ed: "\<And>e. e > 0 \<Longrightarrow> \<exists>s>0. \<forall>y. y \<noteq> a \<and> \<bar>y - a\<bar> < s \<longrightarrow> \<bar>f y - f a\<bar> < e"
    by (simp add: isCont_def LIM_def dist_real_def)
  have "\<bar>l - f a\<bar> > 0" using assms(2) by simp
  from ed [OF this] obtain s where s: "s > 0"
    "\<And>y. y \<noteq> a \<Longrightarrow> \<bar>y - a\<bar> < s \<Longrightarrow> \<bar>f y - f a\<bar> < \<bar>l - f a\<bar>"
    by auto
  define y where "y = a - min (s / 2) 1"
  have y: "\<bar>y - a\<bar> < s" "a - 1 \<le> y" "y < a" using s(1) by (auto simp: y_def)
  then have "f y = l" using left by simp
  moreover have "\<bar>f y - f a\<bar> < \<bar>l - f a\<bar>" using s(2) [of y] y by simp
  ultimately show False by simp
qed

lemma aqi_moderate_jump_at_80: "\<not> isCont (\<lambda>d. aqi_moderate (aqiMembership d)) 80"
proof (rule jump_not_isCont [where l = 1])
  fix y :: real assume "80 - 1 \<le> y" "y < 80"
  then show "aqi_moderate (aqiMembership y) = 1"
    by (simp add: aqiMembership_def math_defs Let_def)
next
  show "aqi_moderate (aqiMembership 80) \<noteq> 1"
    by (simp add: aqiMembership_def math_defs Let_def)
qed

lemma aqi_poor_jump_at_150: "\<not> isCont (\<lambda>d. aqi_poor (aqiMembership d)) 150"
proof (rule jump_not_isCont [where l = 1])
  fix y :: real assume "150 - 1 \<le> y" "y < 150"
  then show "aqi_poor (aqiMembership y) = 1"
    by (simp add: aqiMembership_def math_defs Let_def)
next
  show "aqi_poor (aqiMembership 150) \<noteq> 1"
    by (simp add: aqiMembership_def math_defs Let_def)
qed

text \<open>
  C7. The two branch formulas have the same value, and the membership function is
  continuous, at these breakpoints: the moderate degree of the deviation at absolute
  deviation 30, its poor degree at 70, the comfortable degree of the temperature at 18 and
  at 26, and the comfortable degree of the humidity at 30 and at 60.
\<close>

theorem branches_agree_at_lower_breakpoints:
  "aqi_moderate (aqiMembership d) =
     (if \<bar>d\<bar> \<ge> 30 \<and> \<bar>d\<bar> < 80 then aqi_moderate_ramp \<bar>d\<bar> else aqi_moderate_triangle \<bar>d\<bar>)
   \<and> aqi_poor (aqiMembership d) =
     (if \<bar>d\<bar> \<ge> 70 \<and> \<bar>d\<bar> < 150 then aqi_poor_ramp \<bar>d\<bar> else aqi_poor_triangle \<bar>d\<bar>)
   \<and> temp_comfortable (tempMembership t) =
     (if t \<ge> 18 \<and> t \<le> 26 then 1
      else if t < 18 then temp_comfortable_rising t else temp_comfortable_falling t)
   \<and> hum_comfortable (humidityMembership h) =
     (if h \<ge> 30 \<and> h \<le> 60 then 1
      else if h < 30 then hum_comfortable_rising h else hum_comfortable_falling h)
   \<and> aqi_moderate_ramp 30 = aqi_moderate_triangle 30
   \<and> aqi_poor_ramp 70 = aqi_poor_triangle 70
   \<and> temp_comfortable_rising 18 = 1 \<and> temp_comfortable_falling 26 = 1
   \<and> hum_comfortable_rising 30 = 1 \<and> hum_comfortable_falling 60 = 1
   \<and> isCont (\<lambda>d. aqi_moderate (aqiMembership d)) 30
   \<and> isCont (\<lambda>d. aqi_moderate (aqiMembership d)) (- 30)
   \<and> isCont (\<lambda>d. aqi_poor (aqiMembership d)) 70
   \<and> isCont (\<lambda>d. aqi_poor (aqiMembership d)) (- 70)
   \<and> isCont (\<lambda>t. temp_comfortable (tempMembership t)) 18
   \<and> isCont (\<lambda>t. temp_comfortable (tempMembership t)) 26
   \<and> isCont (\<lambda>h. hum_comfortable (humidityMembership h)) 30
   \<and> isCont (\<lambda>h. hum_comfortable (humidityMembership h)) 60"
proof -
  have "aqi_moderate_ramp 30 = aqi_moderate_triangle 30"
    and "aqi_poor_ramp 70 = aqi_poor_triangle 70"
    by (simp_all add: aqi_moderate_ramp_def aqi_moderate_triangle_def aqi_poor_ramp_def
        aqi_poor_triangle_def math_defs)
  moreover have "temp_comfortable_rising 18 = 1" and "temp_comfortable_falling 26 = 1"
    and "hum_comfortable_rising 30 = 1" and "hum_comfortable_falling 60 = 1"
    by (simp_all add: temp_comfortable_rising_def temp_comfortable_falling_def
        hum_comfortable_rising_def hum_comfortable_falling_def math_defs)
  moreover have "isCont (\<lambda>d. aqi_moderate (aqiMembership d)) 30"
    and "isCont (\<lambda>d. aqi_moderate (aqiMembership d)) (- 30)"
    by (rule isCont_aqi_moderate, simp)+
  moreover have "isCont (\<lambda>d. aqi_poor (aqiMembership d)) 70"
    and "isCont (\<lambda>d. aqi_poor (aqiMembership d)) (- 70)"
    by (rule isCont_aqi_poor, simp)+
  ultimately show ?thesis
    using aqi_branches [of d] comfortable_branches(1) [of t] comfortable_branches(2) [of h]
      isCont_temp_comfortable isCont_hum_comfortable
    by (intro conjI) assumption+
qed

text \<open>
  At the upper breakpoints of the deviation the branches differ: at 80 the ramp of the
  moderate degree is 1 and its triangle 4/7, at 150 the ramp of the poor degree is 1 and
  its triangle 2/5.
\<close>

theorem upper_breakpoints_counterexample:
  "aqi_moderate_ramp 80 = 1 \<and> aqi_moderate_triangle 80 = 4 / 7
   \<and> aqi_moderate_ramp 80 \<noteq> aqi_moderate_triangle 80
   \<and> aqi_poor_ramp 150 = 1 \<and> aqi_poor_triangle 150 = 2 / 5
   \<and> aqi_poor_ramp 150 \<noteq> aqi_poor_triangle 150"
  by (simp add: aqi_moderate_ramp_def aqi_moderate_triangle_def aqi_poor_ramp_def
      aqi_poor_triangle_def math_defs)

subsection \<open>Presentation lookup\<close>

text \<open>
  C9. \<open>getConditionDetails\<close> returns the matching entry for each of the six labels and the
  moderate entry for every other key. The first half holds (\<open>getConditionDetails_own\<close>), and
  the second for every key that \<^verbatim>\<open>Object.prototype\<close> does not define
  (\<open>getConditionDetails_fallback\<close>); for the key \<^verbatim>\<open>toString\<close> the read finds the inherited
  function, which is truthy, so the fallback is not taken.
\<close>

theorem fallback_misses_inherited_keys:
  "getConditionDetails ''toString'' = Inherited ''toString''
   \<and> getConditionDetails ''toString'' \<noteq> get_property details ''moderate''"
  by (simp add: getConditionDetails_def get_property_def details_def Object_prototype_keys_def)

lemma getConditionDetails_own:
  "map_of details key = Some p \<Longrightarrow> getConditionDetails key = Entry p"
  by (simp add: getConditionDetails_def get_property_def)

lemma details_keys: "map fst details = canonical_order"
  by (simp add: details_def canonical_order_def)

lemma getConditionDetails_fallback:
  assumes "key \<notin> set canonical_order" and "key \<notin> set Object_prototype_keys"
  shows "getConditionDetails key = get_property details ''moderate''"
proof -
  have "fst ` set details = set canonical_order"
    by (simp add: details_keys [symmetric])
  then have "map_of details key = None"
    using assms(1) by (simp add: map_of_eq_None_iff)
  then show ?thesis using assms(2) by (simp add: getConditionDetails_def get_property_def)
qed

lemma details_moderate:
  "get_property details ''moderate'' =
     Entry \<lparr> label = ''Moderate'', color = ''from-yellow-500 to-orange-400'',
             textColor = ''text-yellow-700'', bgColor = ''bg-yellow-50'',
             message = ''Acceptable but may affect sensitive individuals'' \<rparr>"
  by (simp add: get_property_def details_def)

end
